theory Spec2Isabelle
  imports Main
begin

section \<open>Data model\<close>

text \<open>
  The tables the views of \<^verbatim>\<open>api/views.py\<close> read and write. A \<^verbatim>\<open>Decimal\<close> with two
  decimal places is an integer number of hundredths, so \<^verbatim>\<open>9.50\<close> is \<open>950\<close>; sums
  and products by an integer quantity are exact, as they are for \<^verbatim>\<open>Decimal\<close>.
  Field names carry the name of their model as a prefix, since several models have a
  field \<^verbatim>\<open>user\<close>, \<^verbatim>\<open>price\<close> or \<^verbatim>\<open>quantity\<close>.
\<close>

type_synonym decimal = int

record MenuItem =
  menu_title :: string
  menu_price :: decimal
  menu_featured :: bool
  menu_category :: nat

record User =
  uid :: nat
  username :: string
  groups :: "string list"
  is_staff :: bool
  is_superuser :: bool

record Cart =
  cart_user :: nat
  cart_menuitem_id :: nat
  cart_quantity :: int
  cart_unit_price :: decimal
  cart_price :: decimal

record Order =
  order_user :: nat
  order_total :: decimal
  order_status :: bool
  order_delivery_crew :: "nat option"
  order_date :: nat

record OrderItem =
  item_order_id :: nat
  item_menuitem_id :: nat
  item_quantity :: int

text \<open>
  The store. Tables read by primary key are maps from the key; the cart and the order
  items, which the views only filter, are lists of rows in insertion order.
  \<open>next_order_id\<close> is the key the store gives to the next order created.
\<close>

record db =
  menuitems :: "nat \<rightharpoonup> MenuItem"
  users :: "nat \<rightharpoonup> User"
  cart :: "Cart list"
  orders :: "nat \<rightharpoonup> Order"
  next_order_id :: nat
  orderitems :: "OrderItem list"

section \<open>Errors and responses\<close>

text \<open>
  Every exception a view can raise is a value. No view of the source opens a
  transaction, so a view returns the store as it is when the exception leaves the view,
  together with the error.
\<close>

datatype error =
    ValidationError
  | Http404
  | NotAuthenticated
  | PermissionDenied
  | DoesNotExist
  | MultipleObjectsReturned
  | KeyError
  | IntegrityError

datatype message =
    ItemAdded
  | CreateFailed error
  | ItemRemoved
  | AllItemsRemoved
  | OrderPlaced nat
  | StatusChanged nat bool
  | CrewAssigned string nat
  | OrderDeleted nat

datatype response = JsonResponse nat message

section \<open>Requests and permissions\<close>

datatype http_method = GET | POST | PUT | PATCH | DELETE

datatype permission =
    AllowAny
  | IsAuthenticated
  | IsAdminUser
  | IsManager
  | IsDeliveryCrew
  | Or permission permission

text \<open>
  Membership of a group, as \<^verbatim>\<open>OrdersView.get_queryset\<close> tests it with
  \<^verbatim>\<open>groups.filter(name=...).exists()\<close>.
\<close>

definition in_group :: "string \<Rightarrow> User \<Rightarrow> bool" where
  "in_group name u = (name \<in> set (groups u))"

text \<open>
  Modelled from the spec: \<^verbatim>\<open>api/permissions.py\<close>, which declares \<^verbatim>\<open>IsManager\<close>, is not
  under src/. The spec resolves a role from group membership; the group of managers is
  the one \<^verbatim>\<open>OrdersView.get_queryset\<close> names \<^verbatim>\<open>Manager\<close>.
\<close>

definition is_manager :: "User \<Rightarrow> bool" where
  "is_manager u = in_group ''Manager'' u"

text \<open>
  Modelled from the spec: \<^verbatim>\<open>api/permissions.py\<close>, which declares \<^verbatim>\<open>IsDeliveryCrew\<close>, is
  not under src/. The spec resolves a role from group membership; the group of the
  delivery crew is the one \<^verbatim>\<open>OrdersView.get_queryset\<close> names \<^verbatim>\<open>Delivery Crew\<close>.
\<close>

definition is_delivery_crew :: "User \<Rightarrow> bool" where
  "is_delivery_crew u = in_group ''Delivery Crew'' u"

text \<open>
  The requesting user is \<open>None\<close> for an anonymous request. \<^verbatim>\<open>IsAdminUser\<close> is the
  framework's test of \<^verbatim>\<open>is_staff\<close>.
\<close>

fun has_permission :: "permission \<Rightarrow> User option \<Rightarrow> bool" where
  "has_permission AllowAny _ = True"
| "has_permission IsAuthenticated None = False"
| "has_permission IsAuthenticated (Some u) = True"
| "has_permission IsAdminUser None = False"
| "has_permission IsAdminUser (Some u) = is_staff u"
| "has_permission IsManager None = False"
| "has_permission IsManager (Some u) = is_manager u"
| "has_permission IsDeliveryCrew None = False"
| "has_permission IsDeliveryCrew (Some u) = is_delivery_crew u"
| "has_permission (Or p q) r = (has_permission p r \<or> has_permission q r)"

text \<open>
  The framework's \<^verbatim>\<open>check_permissions\<close>: the first permission that refuses ends the
  request, with 401 for an anonymous user and 403 Forbidden otherwise.
\<close>

fun check_permissions :: "permission list \<Rightarrow> User option \<Rightarrow> error + unit" where
  "check_permissions [] r = Inr ()"
| "check_permissions (p # ps) r =
     (if has_permission p r then check_permissions ps r
      else Inl (case r of None \<Rightarrow> NotAuthenticated | Some u \<Rightarrow> PermissionDenied))"

section \<open>Cart\<close>

text \<open>
  The body of a cart request: the entries \<^verbatim>\<open>menuitem\<close> and \<^verbatim>\<open>quantity\<close> of
  \<^verbatim>\<open>request.data\<close>, \<open>None\<close> when the key is absent.
\<close>

record cart_data =
  data_menuitem :: "nat option"
  data_quantity :: "int option"

definition same_line :: "nat \<Rightarrow> nat \<Rightarrow> Cart \<Rightarrow> bool" where
  "same_line user_id menuitem c = (cart_user c = user_id \<and> cart_menuitem_id c = menuitem)"

text \<open>
  Modelled from the spec: \<^verbatim>\<open>api/models.py\<close>, which declares the \<^verbatim>\<open>Cart\<close> table and
  its constraints, is not under src/. The spec gives the table at most one line per
  (user, menu item) pair, so the store refuses a row whose pair already has a line;
  \<^verbatim>\<open>Customer_Cart.post\<close> catches the exception.
\<close>

definition Cart_objects_create :: "db \<Rightarrow> Cart \<Rightarrow> error + db" where
  "Cart_objects_create d row =
     (if list_ex (same_line (cart_user row) (cart_menuitem_id row)) (cart d)
      then Inl IntegrityError
      else Inr (d\<lparr>cart := cart d @ [row]\<rparr>))"

text \<open>
  \<^verbatim>\<open>AddToCartSerializer.is_valid\<close>: both entries are required, and the entry
  \<^verbatim>\<open>menuitem\<close>, a reference to a menu item, has to name an item of the menu.
\<close>

definition AddToCartSerializer_is_valid :: "db \<Rightarrow> cart_data \<Rightarrow> bool" where
  "AddToCartSerializer_is_valid d data =
     (case (data_menuitem data, data_quantity data) of
        (Some menuitem_id, Some quantity) \<Rightarrow> menuitems d menuitem_id \<noteq> None
      | _ \<Rightarrow> False)"

text \<open>
  \<^verbatim>\<open>Customer_Cart.post\<close>. An invalid body ends the request with a validation error
  before anything is read from it. An exception of the create is caught and answered
  with its message under the default status 200.
\<close>

definition Customer_Cart_post :: "db \<Rightarrow> User \<Rightarrow> cart_data \<Rightarrow> db \<times> (error + response)" where
  "Customer_Cart_post d u data =
     (if AddToCartSerializer_is_valid d data
      then (case (data_menuitem data, data_quantity data) of
              (Some menuitem_id, Some quantity) \<Rightarrow>
                (case menuitems d menuitem_id of
                   None \<Rightarrow> (d, Inl Http404)
                 | Some item \<Rightarrow>
                     (let price = quantity * menu_price item
                      in case Cart_objects_create d
                                \<lparr>cart_user = uid u, cart_menuitem_id = menuitem_id,
                                 cart_quantity = quantity, cart_unit_price = menu_price item,
                                 cart_price = price\<rparr> of
                           Inl e \<Rightarrow> (d, Inr (JsonResponse 200 (CreateFailed e)))
                         | Inr d' \<Rightarrow> (d', Inr (JsonResponse 201 ItemAdded))))
            | _ \<Rightarrow> (d, Inl KeyError))
      else (d, Inl ValidationError))"

text \<open>
  \<^verbatim>\<open>RemoveFromCartSerializer.is_valid\<close>: the entry \<^verbatim>\<open>menuitem\<close> has to name an item
  of the menu.
\<close>

definition RemoveFromCartSerializer_is_valid :: "db \<Rightarrow> nat \<Rightarrow> bool" where
  "RemoveFromCartSerializer_is_valid d menuitem = (menuitems d menuitem \<noteq> None)"

text \<open>
  \<^verbatim>\<open>Customer_Cart.delete\<close>: with a \<^verbatim>\<open>menuitem\<close> entry the body is validated and the
  one matching line is removed (\<^verbatim>\<open>get_object_or_404\<close>), without it every line of the
  user.
\<close>

definition Customer_Cart_delete :: "db \<Rightarrow> User \<Rightarrow> nat option \<Rightarrow> db \<times> (error + response)" where
  "Customer_Cart_delete d u menuitem_entry =
     (case menuitem_entry of
        Some menuitem \<Rightarrow>
          (if RemoveFromCartSerializer_is_valid d menuitem
           then (case filter (same_line (uid u) menuitem) (cart d) of
                   [] \<Rightarrow> (d, Inl Http404)
                 | [c] \<Rightarrow> (d\<lparr>cart := filter (\<lambda>c. \<not> same_line (uid u) menuitem c) (cart d)\<rparr>,
                           Inr (JsonResponse 200 ItemRemoved))
                 | _ \<Rightarrow> (d, Inl MultipleObjectsReturned))
           else (d, Inl ValidationError))
      | None \<Rightarrow>
          (d\<lparr>cart := filter (\<lambda>c. cart_user c \<noteq> uid u) (cart d)\<rparr>,
           Inr (JsonResponse 201 AllItemsRemoved)))"

section \<open>Orders\<close>

text \<open>\<^verbatim>\<open>OrdersView.get_queryset\<close>: the orders a user may list, as a sub-table.\<close>

definition filter_orders :: "(Order \<Rightarrow> bool) \<Rightarrow> (nat \<rightharpoonup> Order) \<Rightarrow> (nat \<rightharpoonup> Order)" where
  "filter_orders P m =
     (\<lambda>pk. case m pk of None \<Rightarrow> None | Some order \<Rightarrow> if P order then Some order else None)"

definition OrdersView_get_queryset :: "db \<Rightarrow> User \<Rightarrow> (nat \<rightharpoonup> Order)" where
  "OrdersView_get_queryset d u =
     (if in_group ''Manager'' u \<or> is_superuser u = True then orders d
      else if in_group ''Delivery Crew'' u
        then filter_orders (\<lambda>order. order_delivery_crew order = Some (uid u)) (orders d)
      else filter_orders (\<lambda>order. order_user order = uid u) (orders d))"

text \<open>\<^verbatim>\<open>OrdersView.calculate_total\<close>: the loop adds the stored price of each line.\<close>

definition calculate_total :: "Cart list \<Rightarrow> decimal" where
  "calculate_total cart_items = foldl (\<lambda>total item. total + cart_price item) 0 cart_items"

definition Order_objects_create :: "db \<Rightarrow> Order \<Rightarrow> db \<times> nat" where
  "Order_objects_create d order =
     (d\<lparr>orders := (orders d)(next_order_id d \<mapsto> order),
        next_order_id := Suc (next_order_id d)\<rparr>,
      next_order_id d)"

definition new_order_item :: "nat \<Rightarrow> Cart \<Rightarrow> OrderItem" where
  "new_order_item order_id i =
     \<lparr>item_order_id = order_id, item_menuitem_id = cart_menuitem_id i,
      item_quantity = cart_quantity i\<rparr>"

text \<open>
  The loop of \<^verbatim>\<open>OrdersView.post\<close> over the rows of the cart: each order item is
  written as soon as it is created, and \<^verbatim>\<open>get_object_or_404\<close> ends the loop at the
  first line whose menu item is not in the menu.
\<close>

fun create_order_items :: "db \<Rightarrow> nat \<Rightarrow> Cart list \<Rightarrow> db \<times> (error + unit)" where
  "create_order_items d order_id [] = (d, Inr ())"
| "create_order_items d order_id (i # rest) =
     (case menuitems d (cart_menuitem_id i) of
        None \<Rightarrow> (d, Inl Http404)
      | Some menuitem \<Rightarrow>
          create_order_items
            (d\<lparr>orderitems := orderitems d @ [new_order_item order_id i]\<rparr>) order_id rest)"

text \<open>
  \<^verbatim>\<open>OrdersView.post\<close>: the order is created first, then its items, then the lines of
  the user are deleted; \<open>today\<close> is \<^verbatim>\<open>date.today()\<close>.
\<close>

definition OrdersView_post :: "db \<Rightarrow> User \<Rightarrow> nat \<Rightarrow> db \<times> (error + response)" where
  "OrdersView_post d u today =
     (let cart_items = filter (\<lambda>c. cart_user c = uid u) (cart d);
          total = calculate_total cart_items;
          (d1, order_id) = Order_objects_create d
             \<lparr>order_user = uid u, order_total = total, order_status = False,
              order_delivery_crew = None, order_date = today\<rparr>
      in case create_order_items d1 order_id cart_items of
           (d2, Inl e) \<Rightarrow> (d2, Inl e)
         | (d2, Inr _) \<Rightarrow>
             (d2\<lparr>cart := filter (\<lambda>c. cart_user c \<noteq> uid u) (cart d2)\<rparr>,
              Inr (JsonResponse 201 (OrderPlaced order_id))))"

section \<open>A single order\<close>

text \<open>
  \<^verbatim>\<open>SingleOrderView.get_permissions\<close>; \<^verbatim>\<open>Order.objects.get\<close> raises when no order
  has the key, and an anonymous user equals no owner.
\<close>

definition SingleOrderView_get_permissions ::
  "db \<Rightarrow> User option \<Rightarrow> http_method \<Rightarrow> nat \<Rightarrow> error + permission list" where
  "SingleOrderView_get_permissions d r method pk =
     (case orders d pk of
        None \<Rightarrow> Inl DoesNotExist
      | Some order \<Rightarrow>
          Inr (if map_option uid r = Some (order_user order) \<and> method = GET
                 then [IsAuthenticated]
               else if method = PUT \<or> method = DELETE
                 then [IsAuthenticated, Or IsManager IsAdminUser]
               else [IsAuthenticated, Or (Or IsDeliveryCrew IsManager) IsAdminUser]))"

definition SingleOrderView_get_queryset :: "db \<Rightarrow> nat \<Rightarrow> OrderItem list" where
  "SingleOrderView_get_queryset d pk = filter (\<lambda>i. item_order_id i = pk) (orderitems d)"

text \<open>
  \<^verbatim>\<open>SingleOrderSerializer\<close>: \<^verbatim>\<open>unit_price\<close> and \<^verbatim>\<open>name\<close> have the menu item as their
  source, \<^verbatim>\<open>get_price\<close> multiplies the quantity by the price of the menu item.
\<close>

record order_line =
  line_quantity :: int
  line_menuitem :: "string \<times> decimal"
  line_unit_price :: decimal
  line_price :: decimal
  line_name :: string

definition get_price :: "OrderItem \<Rightarrow> MenuItem \<Rightarrow> decimal" where
  "get_price obj menuitem = item_quantity obj * menu_price menuitem"

definition SingleOrderSerializer :: "db \<Rightarrow> OrderItem \<Rightarrow> error + order_line" where
  "SingleOrderSerializer d obj =
     (case menuitems d (item_menuitem_id obj) of
        None \<Rightarrow> Inl DoesNotExist
      | Some menuitem \<Rightarrow>
          Inr \<lparr>line_quantity = item_quantity obj,
               line_menuitem = (menu_title menuitem, menu_price menuitem),
               line_unit_price = menu_price menuitem,
               line_price = get_price obj menuitem,
               line_name = menu_title menuitem\<rparr>)"

fun serialize_many :: "db \<Rightarrow> OrderItem list \<Rightarrow> error + order_line list" where
  "serialize_many d [] = Inr []"
| "serialize_many d (obj # rest) =
     (case SingleOrderSerializer d obj of
        Inl e \<Rightarrow> Inl e
      | Inr line \<Rightarrow>
          (case serialize_many d rest of Inl e \<Rightarrow> Inl e | Inr lines \<Rightarrow> Inr (line # lines)))"

text \<open>
  A GET of \<^verbatim>\<open>SingleOrderView\<close>: the permissions of \<^verbatim>\<open>get_permissions\<close> are checked,
  then the inherited \<^verbatim>\<open>list\<close> serializes the queryset.
\<close>

definition SingleOrderView_get :: "db \<Rightarrow> User option \<Rightarrow> nat \<Rightarrow> error + order_line list" where
  "SingleOrderView_get d r pk =
     (case SingleOrderView_get_permissions d r GET pk of
        Inl e \<Rightarrow> Inl e
      | Inr permission_classes \<Rightarrow>
          (case check_permissions permission_classes r of
             Inl e \<Rightarrow> Inl e
           | Inr _ \<Rightarrow> serialize_many d (SingleOrderView_get_queryset d pk)))"

text \<open>\<^verbatim>\<open>SingleOrderView.patch\<close>: \<^verbatim>\<open>Order.objects.get\<close> raises when no order has the key.\<close>

definition SingleOrderView_patch :: "db \<Rightarrow> nat \<Rightarrow> db \<times> (error + response)" where
  "SingleOrderView_patch d pk =
     (case orders d pk of
        None \<Rightarrow> (d, Inl DoesNotExist)
      | Some order \<Rightarrow>
          (let order' = order\<lparr>order_status := \<not> order_status order\<rparr>
           in (d\<lparr>orders := (orders d)(pk \<mapsto> order')\<rparr>,
               Inr (JsonResponse 200 (StatusChanged pk (order_status order'))))))"

text \<open>
  \<^verbatim>\<open>OrderPutSerializer.is_valid\<close>: the serializer declares no required field; an entry
  \<^verbatim>\<open>delivery_crew\<close>, a reference to a user, has to name a user of the store.
\<close>

definition OrderPutSerializer_is_valid :: "db \<Rightarrow> nat option \<Rightarrow> bool" where
  "OrderPutSerializer_is_valid d crew_entry =
     (case crew_entry of None \<Rightarrow> True | Some crew_pk \<Rightarrow> users d crew_pk \<noteq> None)"

text \<open>
  \<^verbatim>\<open>SingleOrderView.put\<close>; the argument is the entry \<^verbatim>\<open>delivery_crew\<close> of
  \<^verbatim>\<open>request.data\<close>. An absent entry passes the validation and is met by the subscript
  \<^verbatim>\<open>request.data['delivery_crew']\<close>.
\<close>

definition SingleOrderView_put :: "db \<Rightarrow> nat \<Rightarrow> nat option \<Rightarrow> db \<times> (error + response)" where
  "SingleOrderView_put d order_pk crew_entry =
     (if OrderPutSerializer_is_valid d crew_entry
      then (case crew_entry of
              None \<Rightarrow> (d, Inl KeyError)
            | Some crew_pk \<Rightarrow>
                (case orders d order_pk of
                   None \<Rightarrow> (d, Inl Http404)
                 | Some order \<Rightarrow>
                     (case users d crew_pk of
                        None \<Rightarrow> (d, Inl Http404)
                      | Some crew \<Rightarrow>
                          (d\<lparr>orders := (orders d)
                                 (order_pk \<mapsto> order\<lparr>order_delivery_crew := Some crew_pk\<rparr>)\<rparr>,
                           Inr (JsonResponse 201 (CrewAssigned (username crew) order_pk))))))
      else (d, Inl ValidationError))"

section \<open>Example stores\<close>

definition item_A :: MenuItem where
  "item_A = \<lparr>menu_title = ''A'', menu_price = 950, menu_featured = False, menu_category = 1\<rparr>"

definition item_B :: MenuItem where
  "item_B = \<lparr>menu_title = ''B'', menu_price = 300, menu_featured = False, menu_category = 1\<rparr>"

definition customer1 :: User where
  "customer1 = \<lparr>uid = 1, username = ''ann'', groups = [], is_staff = False, is_superuser = False\<rparr>"

definition customer2 :: User where
  "customer2 = \<lparr>uid = 2, username = ''bob'', groups = [], is_staff = False, is_superuser = False\<rparr>"

definition crew3 :: User where
  "crew3 = \<lparr>uid = 3, username = ''cem'', groups = [''Delivery Crew''], is_staff = False,
            is_superuser = False\<rparr>"

definition crew4 :: User where
  "crew4 = \<lparr>uid = 4, username = ''dee'', groups = [''Delivery Crew''], is_staff = False,
            is_superuser = False\<rparr>"

definition manager5 :: User where
  "manager5 = \<lparr>uid = 5, username = ''eve'', groups = [''Manager''], is_staff = False,
               is_superuser = False\<rparr>"

definition all_users :: "nat \<rightharpoonup> User" where
  "all_users = [1 \<mapsto> customer1, 2 \<mapsto> customer2, 3 \<mapsto> crew3, 4 \<mapsto> crew4, 5 \<mapsto> manager5]"

text \<open>An empty shop with the menu items A (9.50) and B (3.00).\<close>

definition shop0 :: db where
  "shop0 = \<lparr>menuitems = [1 \<mapsto> item_A, 2 \<mapsto> item_B], users = all_users, cart = [],
            orders = Map.empty, next_order_id = 1, orderitems = []\<rparr>"

text \<open>The same shop with the cart of customer 1: two of A and one of B.\<close>

definition line_A :: Cart where
  "line_A = \<lparr>cart_user = 1, cart_menuitem_id = 1, cart_quantity = 2, cart_unit_price = 950,
             cart_price = 1900\<rparr>"

definition line_B :: Cart where
  "line_B = \<lparr>cart_user = 1, cart_menuitem_id = 2, cart_quantity = 1, cart_unit_price = 300,
             cart_price = 300\<rparr>"

definition shop_cart :: db where
  "shop_cart = shop0\<lparr>cart := [line_A, line_B]\<rparr>"

text \<open>The same cart when item B is no longer in the menu.\<close>

definition shop_stale :: db where
  "shop_stale = shop_cart\<lparr>menuitems := [1 \<mapsto> item_A]\<rparr>"

text \<open>The shop after customer 1 has placed the order, assigned to crew member 3.\<close>

definition order1 :: Order where
  "order1 = \<lparr>order_user = 1, order_total = 2200, order_status = False,
             order_delivery_crew = Some 3, order_date = 7\<rparr>"

definition shop_order :: db where
  "shop_order = shop0\<lparr>orders := [1 \<mapsto> order1], next_order_id := 2,
                      orderitems := [new_order_item 1 line_A, new_order_item 1 line_B]\<rparr>"

text \<open>The shop right after customer 1 has placed the order for the cart above.\<close>

definition shop_placed :: db where
  "shop_placed = fst (OrdersView_post shop_cart customer1 7)"

text \<open>A shop with a second order, of customer 2, delivered by crew member 4.\<close>

definition order2 :: Order where
  "order2 = \<lparr>order_user = 2, order_total = 300, order_status = True,
             order_delivery_crew = Some 4, order_date = 8\<rparr>"

definition shop_two_orders :: db where
  "shop_two_orders = shop_order\<lparr>orders := [1 \<mapsto> order1, 2 \<mapsto> order2], next_order_id := 3\<rparr>"

section \<open>Notions of the specification\<close>

text \<open>The lines of a user's cart, as \<^verbatim>\<open>Cart.objects.filter(user=request.user)\<close> reads them.\<close>

definition user_cart :: "db \<Rightarrow> User \<Rightarrow> Cart list" where
  "user_cart d u = filter (\<lambda>c. cart_user c = uid u) (cart d)"

definition other_carts :: "db \<Rightarrow> User \<Rightarrow> Cart list" where
  "other_carts d u = filter (\<lambda>c. cart_user c \<noteq> uid u) (cart d)"

definition in_menu :: "db \<Rightarrow> Cart \<Rightarrow> bool" where
  "in_menu d c = (menuitems d (cart_menuitem_id c) \<noteq> None)"

text \<open>The line total of the specification: quantity times the unit price of the line.\<close>

definition line_total :: "Cart \<Rightarrow> decimal" where
  "line_total c = cart_quantity c * cart_unit_price c"

definition line_consistent :: "Cart \<Rightarrow> bool" where
  "line_consistent c = (cart_price c = line_total c)"

definition cart_unique :: "db \<Rightarrow> bool" where
  "cart_unique d = distinct (map (\<lambda>c. (cart_user c, cart_menuitem_id c)) (cart d))"

text \<open>A customer holds no role: no group of a role, and neither staff nor superuser.\<close>

definition is_customer :: "User \<Rightarrow> bool" where
  "is_customer u =
     (\<not> is_manager u \<and> \<not> is_delivery_crew u \<and> \<not> is_staff u \<and> \<not> is_superuser u)"

definition placed_order :: "db \<Rightarrow> User \<Rightarrow> nat \<Rightarrow> Order" where
  "placed_order d u today =
     \<lparr>order_user = uid u, order_total = calculate_total (user_cart d u), order_status = False,
      order_delivery_crew = None, order_date = today\<rparr>"

section \<open>The loop of order placement in closed form\<close>

lemma create_order_items_menu:
  "menuitems (fst (create_order_items d oid items)) = menuitems d"
  by (induction items arbitrary: d) (auto split: option.splits)

lemma create_order_items_closed:
  "create_order_items d oid items =
     (d\<lparr>orderitems := orderitems d @ map (new_order_item oid) (takeWhile (in_menu d) items)\<rparr>,
      if list_all (in_menu d) items then Inr () else Inl Http404)"
proof (induction items arbitrary: d)
  case Nil
  show ?case by simp
next
  case (Cons i rest)
  show ?case
  proof (cases "menuitems d (cart_menuitem_id i)")
    case None
    then show ?thesis by (simp add: in_menu_def)
  next
    case (Some m)
    have same: "in_menu (d\<lparr>orderitems := orderitems d @ [new_order_item oid i]\<rparr>) = in_menu d"
      by (simp add: in_menu_def fun_eq_iff)
    from Some show ?thesis
      by (simp add: Cons.IH same in_menu_def[of d i])
  qed
qed

lemma in_menu_update [simp]:
  "in_menu (d\<lparr>orders := a\<rparr>) = in_menu d"
  "in_menu (d\<lparr>next_order_id := b\<rparr>) = in_menu d"
  "in_menu (d\<lparr>orderitems := c\<rparr>) = in_menu d"
  "in_menu (d\<lparr>cart := e\<rparr>) = in_menu d"
  by (simp_all add: in_menu_def fun_eq_iff)

lemma OrdersView_post_closed:
  "OrdersView_post d u today =
     (let d1 = d\<lparr>orders := (orders d)(next_order_id d \<mapsto> placed_order d u today),
                 next_order_id := Suc (next_order_id d),
                 orderitems := orderitems d @
                    map (new_order_item (next_order_id d)) (takeWhile (in_menu d) (user_cart d u))\<rparr>
      in if list_all (in_menu d) (user_cart d u)
         then (d1\<lparr>cart := other_carts d u\<rparr>, Inr (JsonResponse 201 (OrderPlaced (next_order_id d))))
         else (d1, Inl Http404))"
  unfolding OrdersView_post_def Order_objects_create_def placed_order_def user_cart_def
    other_carts_def Let_def
  by (simp add: create_order_items_closed)


lemma filter_none_keeps_rest: "filter P xs = [] \<Longrightarrow> filter (\<lambda>x. \<not> P x) xs = xs"
  by (induction xs) (auto split: if_splits)

lemma calculate_total_sum:
  "foldl (\<lambda>total item. total + cart_price item) a xs = a + sum_list (map cart_price xs)"
  by (induction xs arbitrary: a) auto

lemma calculate_total_sum_list: "calculate_total xs = sum_list (map cart_price xs)"
  by (simp add: calculate_total_def calculate_total_sum)

lemma OrdersView_post_menu: "menuitems (fst (OrdersView_post d u today)) = menuitems d"
  by (simp add: OrdersView_post_closed Let_def)

section \<open>Serializing the items of an order\<close>

lemma serialize_many_lines:
  "serialize_many d objs = Inr lines \<Longrightarrow>
     list_all2 (\<lambda>obj line. \<exists>menuitem. menuitems d (item_menuitem_id obj) = Some menuitem
                   \<and> line_quantity line = item_quantity obj
                   \<and> line_unit_price line = menu_price menuitem
                   \<and> line_price line = item_quantity obj * menu_price menuitem) objs lines"
proof (induction objs arbitrary: lines)
  case Nil
  then show ?case by simp
next
  case (Cons obj rest)
  then show ?case
    by (auto simp add: SingleOrderSerializer_def get_price_def split: sum.splits option.splits)
qed

lemma SingleOrderView_get_list:
  "SingleOrderView_get d r pk = Inr lines \<Longrightarrow>
     serialize_many d (SingleOrderView_get_queryset d pk) = Inr lines"
  by (simp add: SingleOrderView_get_def split: sum.splits)

section \<open>Invariants of the cart\<close>

text \<open>
  A line that \<^verbatim>\<open>AddLine\<close> creates carries the price of the menu item at that moment
  as its unit price, and the quantity times that price as its price.
\<close>

lemma Customer_Cart_post_added:
  assumes "Customer_Cart_post d u data = (d', Inr (JsonResponse 201 ItemAdded))"
  shows "\<exists>menuitem_id quantity item.
           data_menuitem data = Some menuitem_id \<and> data_quantity data = Some quantity
         \<and> menuitems d menuitem_id = Some item
         \<and> cart d' = cart d @
              [\<lparr>cart_user = uid u, cart_menuitem_id = menuitem_id, cart_quantity = quantity,
                cart_unit_price = menu_price item, cart_price = quantity * menu_price item\<rparr>]"
  using assms
  by (auto simp add: Customer_Cart_post_def AddToCartSerializer_is_valid_def Cart_objects_create_def Let_def
      split: option.splits if_splits)

lemma Customer_Cart_post_consistent:
  "list_all line_consistent (cart d) \<Longrightarrow>
     list_all line_consistent (cart (fst (Customer_Cart_post d u data)))"
  by (auto simp add: Customer_Cart_post_def AddToCartSerializer_is_valid_def Cart_objects_create_def line_consistent_def
      line_total_def Let_def split: option.splits)

lemma shop_cart_by_add_line:
  "shop_cart =
     fst (Customer_Cart_post
            (fst (Customer_Cart_post shop0 customer1
                    \<lparr>data_menuitem = Some 1, data_quantity = Some 2\<rparr>))
            customer1 \<lparr>data_menuitem = Some 2, data_quantity = Some 1\<rparr>)"
  by (simp add: Customer_Cart_post_def AddToCartSerializer_is_valid_def Cart_objects_create_def shop_cart_def shop0_def
      customer1_def line_A_def line_B_def item_A_def item_B_def same_line_def)

lemma cart_unique_filter:
  "cart_unique d \<Longrightarrow> cart_unique (d\<lparr>cart := filter P (cart d)\<rparr>)"
  by (simp add: cart_unique_def distinct_map_filter)

lemma cart_unique_frame [simp]:
  "cart_unique (d\<lparr>orders := a\<rparr>) = cart_unique d"
  "cart_unique (d\<lparr>next_order_id := b\<rparr>) = cart_unique d"
  "cart_unique (d\<lparr>orderitems := c\<rparr>) = cart_unique d"
  by (simp_all add: cart_unique_def)

lemma Cart_objects_create_unique:
  assumes "cart_unique d" and "Cart_objects_create d row = Inr d'"
  shows "cart_unique d'"
proof -
  from assms(2) have fresh: "\<not> list_ex (same_line (cart_user row) (cart_menuitem_id row)) (cart d)"
    and d': "d' = d\<lparr>cart := cart d @ [row]\<rparr>"
    by (auto simp add: Cart_objects_create_def split: if_splits)
  from fresh have "(cart_user row, cart_menuitem_id row)
                     \<notin> set (map (\<lambda>c. (cart_user c, cart_menuitem_id c)) (cart d))"
    by (auto simp add: list_ex_iff same_line_def)
  with assms(1) show ?thesis
    by (simp add: d' cart_unique_def)
qed

lemma Customer_Cart_post_unique:
  "cart_unique d \<Longrightarrow> cart_unique (fst (Customer_Cart_post d u data))"
  by (auto simp add: Customer_Cart_post_def AddToCartSerializer_is_valid_def Let_def split: option.splits sum.splits
      dest: Cart_objects_create_unique)

lemma Customer_Cart_delete_unique:
  "cart_unique d \<Longrightarrow> cart_unique (fst (Customer_Cart_delete d u entry))"
  by (auto simp add: Customer_Cart_delete_def RemoveFromCartSerializer_is_valid_def cart_unique_filter split: option.splits list.splits)

lemma OrdersView_post_unique:
  "cart_unique d \<Longrightarrow> cart_unique (fst (OrdersView_post d u today))"
  by (simp add: OrdersView_post_closed Let_def other_carts_def cart_unique_def distinct_map_filter)

section \<open>Atomicity of order placement\<close>

text \<open>
  C1, as the specification states it, fails: in the store \<open>shop_stale\<close> the second line
  of the cart names a menu item that is not in the menu, \<^verbatim>\<open>PlaceOrder\<close> ends with
  \<^verbatim>\<open>Http404\<close> at that line, and the order and the order item of the first line, neither
  of which existed before, are in the store afterwards.
\<close>

theorem place_order_not_atomic_counterexample:
  "snd (OrdersView_post shop_stale customer1 7) = Inl Http404
   \<and> orders shop_stale 1 = None
   \<and> orders (fst (OrdersView_post shop_stale customer1 7)) 1
       = Some \<lparr>order_user = 1, order_total = 2200, order_status = False,
               order_delivery_crew = None, order_date = 7\<rparr>
   \<and> orderitems shop_stale = []
   \<and> orderitems (fst (OrdersView_post shop_stale customer1 7))
       = [\<lparr>item_order_id = 1, item_menuitem_id = 1, item_quantity = 2\<rparr>]"
  by (simp add: OrdersView_post_def Order_objects_create_def shop_stale_def shop_cart_def shop0_def
      line_A_def line_B_def customer1_def calculate_total_def new_order_item_def Let_def)

text \<open>
  C1, amended. \<^verbatim>\<open>PlaceOrder\<close> is not atomic. When the menu item of some line of the
  customer's cart is not found, the request ends with \<^verbatim>\<open>Http404\<close>, the cart is
  unchanged, and the order and the order items of the lines before the failing one
  persist. When every line is found, the request succeeds, and the order, one order item
  for each line, and the clearing of the customer's lines (and of no other line) have
  all taken effect.
\<close>

theorem place_order_effects:
  assumes "\<not> list_all (in_menu d) (user_cart d u)"
      and "list_all (in_menu d') (user_cart d' u')"
  shows "(\<exists>e. OrdersView_post d u today = (e, Inl Http404)
            \<and> cart e = cart d
            \<and> orders e = (orders d)(next_order_id d \<mapsto> placed_order d u today)
            \<and> orderitems e = orderitems d @
                 map (new_order_item (next_order_id d)) (takeWhile (in_menu d) (user_cart d u)))
       \<and> (\<exists>e'. OrdersView_post d' u' today' =
                   (e', Inr (JsonResponse 201 (OrderPlaced (next_order_id d'))))
            \<and> user_cart e' u' = [] \<and> other_carts e' u' = other_carts d' u'
            \<and> orders e' = (orders d')(next_order_id d' \<mapsto> placed_order d' u' today')
            \<and> orderitems e' = orderitems d' @ map (new_order_item (next_order_id d')) (user_cart d' u'))"
proof -
  from assms(2) have tw: "takeWhile (in_menu d') (user_cart d' u') = user_cart d' u'"
    by (simp add: list_all_iff)
  have cleared: "user_cart (x\<lparr>cart := other_carts d' u'\<rparr>) u' = []"
    "other_carts (x\<lparr>cart := other_carts d' u'\<rparr>) u' = other_carts d' u'" for x
    by (simp_all add: user_cart_def other_carts_def)
  from assms show ?thesis
    by (simp add: OrdersView_post_closed Let_def tw cleared)
qed

theorem place_order_effects_witness:
  "\<not> list_all (in_menu shop_stale) (user_cart shop_stale customer1)
   \<and> list_all (in_menu shop_cart) (user_cart shop_cart customer1)
   \<and> (\<exists>e. OrdersView_post shop_stale customer1 7 = (e, Inl Http404) \<and> cart e = [line_A, line_B]
          \<and> orderitems e = [new_order_item 1 line_A])
   \<and> (\<exists>e'. OrdersView_post shop_cart customer1 7 = (e', Inr (JsonResponse 201 (OrderPlaced 1)))
          \<and> user_cart e' customer1 = []
          \<and> orderitems e' = [new_order_item 1 line_A, new_order_item 1 line_B])"
proof -
  have a: "\<not> list_all (in_menu shop_stale) (user_cart shop_stale customer1)"
    by (simp add: in_menu_def user_cart_def shop_stale_def shop_cart_def shop0_def line_A_def
        line_B_def customer1_def)
  have b: "list_all (in_menu shop_cart) (user_cart shop_cart customer1)"
    by (simp add: in_menu_def user_cart_def shop_cart_def shop0_def line_A_def
        line_B_def customer1_def)
  have c: "user_cart shop_stale customer1 = [line_A, line_B]" "user_cart shop_cart customer1 = [line_A, line_B]"
    "in_menu shop_stale line_A" "\<not> in_menu shop_stale line_B"
    "next_order_id shop_stale = 1" "next_order_id shop_cart = 1"
    "cart shop_stale = [line_A, line_B]" "orderitems shop_stale = []" "orderitems shop_cart = []"
    by (simp_all add: in_menu_def user_cart_def shop_stale_def shop_cart_def shop0_def line_A_def
        line_B_def customer1_def)
  from place_order_effects [OF a b, of 7 7] show ?thesis
    using a b by (auto simp add: c)
qed

section \<open>Prices in the detail of an order\<close>

text \<open>
  C2, as the specification states it, fails: item A costs 9.50 when customer 1 places
  the order, and the detail of the order then shows 9.50 and 19.00; once the price of A
  in the menu is 12.00, the detail of the same order shows 12.00 and 24.00.
\<close>

theorem order_detail_snapshot_counterexample:
  "map_option menu_price (menuitems shop_cart 1) = Some 950
   \<and> SingleOrderView_get shop_placed (Some customer1) 1 =
     Inr [\<lparr>line_quantity = 2, line_menuitem = (''A'', 950), line_unit_price = 950,
           line_price = 1900, line_name = ''A''\<rparr>,
          \<lparr>line_quantity = 1, line_menuitem = (''B'', 300), line_unit_price = 300,
           line_price = 300, line_name = ''B''\<rparr>]
   \<and> SingleOrderView_get
         (shop_placed\<lparr>menuitems := (menuitems shop_placed)(1 \<mapsto> item_A\<lparr>menu_price := 1200\<rparr>)\<rparr>)
         (Some customer1) 1 =
     Inr [\<lparr>line_quantity = 2, line_menuitem = (''A'', 1200), line_unit_price = 1200,
           line_price = 2400, line_name = ''A''\<rparr>,
          \<lparr>line_quantity = 1, line_menuitem = (''B'', 300), line_unit_price = 300,
           line_price = 300, line_name = ''B''\<rparr>]"
  by (simp add: shop_placed_def OrdersView_post_def Order_objects_create_def calculate_total_def
      Let_def shop_cart_def
      SingleOrderView_get_def SingleOrderView_get_permissions_def
      SingleOrderView_get_queryset_def SingleOrderSerializer_def get_price_def
      shop0_def customer1_def new_order_item_def line_A_def line_B_def item_A_def
      item_B_def)

text \<open>
  C2, amended. \<^verbatim>\<open>GetOrderDetail\<close> reports current prices: for every order item it
  returns, the unit price is the price the menu item has at the time of the request and
  the line price is the quantity times that price. \<^verbatim>\<open>PlaceOrder\<close> leaves the menu as
  it is, so the prices reported are those of the time of placement as long as the menu
  item's price is not modified.
\<close>

theorem order_detail_current_prices:
  assumes "SingleOrderView_get d r pk = Inr lines"
  shows "list_all2 (\<lambda>obj line. \<exists>menuitem. menuitems d (item_menuitem_id obj) = Some menuitem
                   \<and> line_quantity line = item_quantity obj
                   \<and> line_unit_price line = menu_price menuitem
                   \<and> line_price line = item_quantity obj * menu_price menuitem)
           (SingleOrderView_get_queryset d pk) lines
       \<and> menuitems (fst (OrdersView_post d u today)) = menuitems d"
  using assms
  by (simp add: serialize_many_lines SingleOrderView_get_list OrdersView_post_menu)

theorem order_detail_current_prices_witness:
  "SingleOrderView_get shop_order (Some customer1) 1 =
     Inr [\<lparr>line_quantity = 2, line_menuitem = (''A'', 950), line_unit_price = 950,
           line_price = 1900, line_name = ''A''\<rparr>,
          \<lparr>line_quantity = 1, line_menuitem = (''B'', 300), line_unit_price = 300,
           line_price = 300, line_name = ''B''\<rparr>]
   \<and> list_all2 (\<lambda>obj line. \<exists>menuitem. menuitems shop_order (item_menuitem_id obj) = Some menuitem
                   \<and> line_quantity line = item_quantity obj
                   \<and> line_unit_price line = menu_price menuitem
                   \<and> line_price line = item_quantity obj * menu_price menuitem)
        (SingleOrderView_get_queryset shop_order 1)
        [\<lparr>line_quantity = 2, line_menuitem = (''A'', 950), line_unit_price = 950,
           line_price = 1900, line_name = ''A''\<rparr>,
          \<lparr>line_quantity = 1, line_menuitem = (''B'', 300), line_unit_price = 300,
           line_price = 300, line_name = ''B''\<rparr>]"
proof -
  have a: "SingleOrderView_get shop_order (Some customer1) 1 =
     Inr [\<lparr>line_quantity = 2, line_menuitem = (''A'', 950), line_unit_price = 950,
           line_price = 1900, line_name = ''A''\<rparr>,
          \<lparr>line_quantity = 1, line_menuitem = (''B'', 300), line_unit_price = 300,
           line_price = 300, line_name = ''B''\<rparr>]"
    by (simp add: SingleOrderView_get_def SingleOrderView_get_permissions_def
      SingleOrderView_get_queryset_def SingleOrderSerializer_def get_price_def shop_order_def
      shop0_def order1_def customer1_def new_order_item_def line_A_def line_B_def item_A_def
      item_B_def)
  from order_detail_current_prices [OF a] show ?thesis
    using a by simp
qed

section \<open>Access to the detail of an order\<close>

text \<open>
  The branch of \<^verbatim>\<open>SingleOrderView.get_permissions\<close> for the owner is the only one
  that lets a user without a role through: for every order, a customer who is not its
  owner receives Forbidden on \<^verbatim>\<open>GetOrderDetail\<close>.
\<close>

lemma order_detail_customer_forbidden:
  assumes "orders d pk = Some order"
      and "is_customer u" and "uid u \<noteq> order_user order"
  shows "SingleOrderView_get d (Some u) pk = Inl PermissionDenied"
  using assms
  by (simp add: SingleOrderView_get_def SingleOrderView_get_permissions_def is_customer_def)

text \<open>
  C3. The detail view does not keep a member of the delivery crew to the orders assigned
  to that member, which the list view does. Order 1 of \<open>shop_order\<close> is assigned to crew
  member 3. Crew member 4 is not a manager, not staff and not the owner; the list view
  \<^verbatim>\<open>OrdersView.get_queryset\<close> does not show order 1 to crew member 4, and customer 2
  receives Forbidden on its detail, yet \<^verbatim>\<open>GetOrderDetail\<close> answers crew member 4 with
  the two lines of the order, where the specification requires Forbidden.
\<close>

theorem order_detail_crew_not_assigned:
  "is_delivery_crew crew4
   \<and> map_option order_delivery_crew (orders shop_order 1) = Some (Some 3)
   \<and> uid crew4 = 4
   \<and> OrdersView_get_queryset shop_order crew4 1 = None
   \<and> SingleOrderView_get shop_order (Some customer2) 1 = Inl PermissionDenied
   \<and> SingleOrderView_get shop_order (Some crew4) 1 =
       Inr [\<lparr>line_quantity = 2, line_menuitem = (''A'', 950), line_unit_price = 950,
             line_price = 1900, line_name = ''A''\<rparr>,
            \<lparr>line_quantity = 1, line_menuitem = (''B'', 300), line_unit_price = 300,
             line_price = 300, line_name = ''B''\<rparr>]"
  by (simp add: SingleOrderView_get_def SingleOrderView_get_permissions_def
      SingleOrderView_get_queryset_def SingleOrderSerializer_def get_price_def shop_order_def
      shop0_def order1_def crew4_def customer2_def new_order_item_def line_A_def line_B_def
      item_A_def item_B_def is_delivery_crew_def is_manager_def in_group_def
      OrdersView_get_queryset_def filter_orders_def)

section \<open>The total of an order\<close>

text \<open>
  C4. For every cart whose lines are as \<^verbatim>\<open>AddLine\<close> writes them (the price of a line
  is its quantity times its unit price), \<^verbatim>\<open>PlaceOrder\<close> creates an order whose total is
  the sum of the line totals. In particular the cart of two A at 9.50 and one B at 3.00
  gives an order with total 22.00 and two order items, and the cart is empty afterwards.
\<close>

theorem place_order_total:
  assumes "list_all line_consistent (user_cart d u)"
  shows "map_option order_total (orders (fst (OrdersView_post d u today)) (next_order_id d))
           = Some (sum_list (map line_total (user_cart d u)))
       \<and> (\<exists>e. OrdersView_post shop_cart customer1 today = (e, Inr (JsonResponse 201 (OrderPlaced 1)))
              \<and> map_option order_total (orders e 1) = Some 2200
              \<and> length (SingleOrderView_get_queryset e 1) = 2
              \<and> user_cart e customer1 = [])"
proof -
  from assms have eq: "map cart_price (user_cart d u) = map line_total (user_cart d u)"
    by (simp add: list_all_iff line_consistent_def)
  have general: "map_option order_total (orders (fst (OrdersView_post d u today)) (next_order_id d))
           = Some (sum_list (map line_total (user_cart d u)))"
    by (simp add: OrdersView_post_closed Let_def placed_order_def calculate_total_sum_list eq)
  have scenario: "\<exists>e. OrdersView_post shop_cart customer1 today = (e, Inr (JsonResponse 201 (OrderPlaced 1)))
              \<and> map_option order_total (orders e 1) = Some 2200
              \<and> length (SingleOrderView_get_queryset e 1) = 2
              \<and> user_cart e customer1 = []"
    by (simp add: OrdersView_post_def Order_objects_create_def calculate_total_def Let_def
        shop_cart_def shop0_def customer1_def line_A_def line_B_def new_order_item_def
        SingleOrderView_get_queryset_def user_cart_def)
  from general scenario show ?thesis by simp
qed

theorem place_order_total_witness:
  "list_all line_consistent (user_cart shop_cart customer1)
   \<and> sum_list (map line_total (user_cart shop_cart customer1)) = 2200
   \<and> map_option order_total (orders (fst (OrdersView_post shop_cart customer1 7)) 1) = Some 2200"
proof -
  have a: "list_all line_consistent (user_cart shop_cart customer1)"
    by (simp add: user_cart_def shop_cart_def shop0_def customer1_def line_A_def line_B_def
        line_consistent_def line_total_def)
  have b: "sum_list (map line_total (user_cart shop_cart customer1)) = 2200"
    by (simp add: user_cart_def shop_cart_def shop0_def customer1_def line_A_def line_B_def
        line_total_def)
  have c: "next_order_id shop_cart = 1"
    by (simp add: shop_cart_def shop0_def)
  from place_order_total [OF a, of 7] show ?thesis
    using a by (simp add: b c)
qed

section \<open>Toggle law\<close>
text \<open>
  C5. \<^verbatim>\<open>ToggleDeliveryStatus\<close> has no guard: on every order of the store it succeeds
  and stores the negated status, so a second call stores the original status again, and
  the store after two calls is the store before them.
\<close>

theorem toggle_twice:
  assumes "orders d pk = Some order"
  shows "\<exists>d1 r1 d2 r2.
           SingleOrderView_patch d pk = (d1, Inr r1)
         \<and> map_option order_status (orders d1 pk) = Some (\<not> order_status order)
         \<and> SingleOrderView_patch d1 pk = (d2, Inr r2)
         \<and> map_option order_status (orders d2 pk) = Some (order_status order)
         \<and> d2 = d"
  using assms by (simp add: SingleOrderView_patch_def Let_def map_upd_triv)

theorem toggle_twice_witness:
  "orders shop_order 1 = Some order1
   \<and> (\<exists>d1 r1 d2 r2.
           SingleOrderView_patch shop_order 1 = (d1, Inr r1)
         \<and> map_option order_status (orders d1 1) = Some True
         \<and> SingleOrderView_patch d1 1 = (d2, Inr r2)
         \<and> map_option order_status (orders d2 1) = Some False
         \<and> d2 = shop_order)"
proof -
  have a: "orders shop_order 1 = Some order1"
    by (simp add: shop_order_def)
  have b: "order_status order1 = False"
    by (simp add: order1_def)
  from toggle_twice [OF a] show ?thesis
    using a by (simp add: b)
qed

section \<open>Order placement on an empty cart\<close>

text \<open>
  C6, as the specification states it, fails: customer 1 has no cart line in \<open>shop0\<close>,
  and \<^verbatim>\<open>PlaceOrder\<close> answers 201 and creates order 1 with total 0.
\<close>

theorem place_order_empty_cart_counterexample:
  "user_cart shop0 customer1 = []
   \<and> orders shop0 1 = None
   \<and> snd (OrdersView_post shop0 customer1 7) = Inr (JsonResponse 201 (OrderPlaced 1))
   \<and> orders (fst (OrdersView_post shop0 customer1 7)) 1
       = Some \<lparr>order_user = 1, order_total = 0, order_status = False,
               order_delivery_crew = None, order_date = 7\<rparr>"
  by (simp add: OrdersView_post_def Order_objects_create_def shop0_def user_cart_def
      customer1_def calculate_total_def Let_def)

text \<open>
  C6, amended. For every customer whose cart is empty, \<^verbatim>\<open>PlaceOrder\<close> succeeds with
  status 201 and creates an order with total 0 for the customer; no order item is
  created and no cart line changes.
\<close>

theorem place_order_empty_cart:
  assumes "user_cart d u = []"
  shows "OrdersView_post d u today =
           (d\<lparr>orders := (orders d)(next_order_id d \<mapsto>
                   \<lparr>order_user = uid u, order_total = 0, order_status = False,
                    order_delivery_crew = None, order_date = today\<rparr>),
               next_order_id := Suc (next_order_id d)\<rparr>,
            Inr (JsonResponse 201 (OrderPlaced (next_order_id d))))"
proof -
  from assms have "other_carts d u = cart d"
    unfolding user_cart_def other_carts_def by (rule filter_none_keeps_rest)
  with assms show ?thesis
    by (simp add: OrdersView_post_closed Let_def placed_order_def calculate_total_def)
qed

theorem place_order_empty_cart_witness:
  "user_cart shop0 customer1 = []
   \<and> snd (OrdersView_post shop0 customer1 7) = Inr (JsonResponse 201 (OrderPlaced 1))"
proof -
  have a: "user_cart shop0 customer1 = []"
    by (simp add: user_cart_def shop0_def)
  from place_order_empty_cart [OF a, of 7] show ?thesis
    using a by (simp add: shop0_def)
qed

section \<open>Listing orders\<close>

text \<open>
  C7. \<^verbatim>\<open>ListOrders\<close> returns every order to a user who is in the group of managers or
  is a superuser; to a user of the delivery crew who is neither, exactly the orders whose
  delivery crew is that user; to every other user, exactly the orders whose owner is that
  user.
\<close>

theorem list_orders_scoping:
  assumes "in_group ''Manager'' m \<or> is_superuser m"
      and "\<not> in_group ''Manager'' c" "\<not> is_superuser c" "in_group ''Delivery Crew'' c"
      and "\<not> in_group ''Manager'' k" "\<not> is_superuser k" "\<not> in_group ''Delivery Crew'' k"
  shows "OrdersView_get_queryset d m = orders d
       \<and> (OrdersView_get_queryset d c pk = Some order)
           = (orders d pk = Some order \<and> order_delivery_crew order = Some (uid c))
       \<and> (OrdersView_get_queryset d k pk = Some order)
           = (orders d pk = Some order \<and> order_user order = uid k)"
  using assms
  by (auto simp add: OrdersView_get_queryset_def filter_orders_def split: option.splits)

theorem list_orders_scoping_witness:
  "(in_group ''Manager'' manager5 \<or> is_superuser manager5)
   \<and> \<not> in_group ''Manager'' crew3 \<and> \<not> is_superuser crew3 \<and> in_group ''Delivery Crew'' crew3
   \<and> \<not> in_group ''Manager'' customer2 \<and> \<not> is_superuser customer2
   \<and> \<not> in_group ''Delivery Crew'' customer2
   \<and> OrdersView_get_queryset shop_two_orders manager5 = [1 \<mapsto> order1, 2 \<mapsto> order2]
   \<and> OrdersView_get_queryset shop_two_orders crew3 1 = Some order1
   \<and> OrdersView_get_queryset shop_two_orders crew3 2 \<noteq> Some order2
   \<and> OrdersView_get_queryset shop_two_orders customer2 1 \<noteq> Some order1
   \<and> OrdersView_get_queryset shop_two_orders customer2 2 = Some order2"
proof -
  have m: "in_group ''Manager'' manager5 \<or> is_superuser manager5"
    by (simp add: in_group_def manager5_def)
  have c: "\<not> in_group ''Manager'' crew3" "\<not> is_superuser crew3" "in_group ''Delivery Crew'' crew3"
    by (simp_all add: in_group_def crew3_def)
  have k: "\<not> in_group ''Manager'' customer2" "\<not> is_superuser customer2"
    "\<not> in_group ''Delivery Crew'' customer2"
    by (simp_all add: in_group_def customer2_def)
  have s: "orders shop_two_orders = [1 \<mapsto> order1, 2 \<mapsto> order2]"
    by (simp add: shop_two_orders_def)
  have v: "order_delivery_crew order1 = Some (uid crew3)"
    "order_delivery_crew order2 \<noteq> Some (uid crew3)"
    "order_user order1 \<noteq> uid customer2" "order_user order2 = uid customer2"
    by (simp_all add: order1_def order2_def crew3_def customer2_def)
  note t = list_orders_scoping [OF m c k, of shop_two_orders]
  from t [of 1 order1] t [of 2 order2] show ?thesis
    using m c k by (simp add: s v)
qed

section \<open>One cart line for a user and a menu item\<close>

text \<open>
  C8. When the cart holds at most one line for each pair of a user and a menu item, it
  still does after \<^verbatim>\<open>AddLine\<close>, after a removal or a clearing, and after
  \<^verbatim>\<open>PlaceOrder\<close>; and \<^verbatim>\<open>AddLine\<close> for a pair that already has a line leaves the store
  as it is and does not answer that the item was added.
\<close>

theorem cart_uniqueness:
  assumes "cart_unique d"
      and "list_ex (same_line (uid u') menuitem) (cart d')" and "data_menuitem data' = Some menuitem"
  shows "cart_unique (fst (Customer_Cart_post d u data))
       \<and> cart_unique (fst (Customer_Cart_delete d u entry))
       \<and> cart_unique (fst (OrdersView_post d u today))
       \<and> fst (Customer_Cart_post d' u' data') = d'
       \<and> snd (Customer_Cart_post d' u' data') \<noteq> Inr (JsonResponse 201 ItemAdded)"
proof -
  from assms(2,3) have refused: "fst (Customer_Cart_post d' u' data') = d'
       \<and> snd (Customer_Cart_post d' u' data') \<noteq> Inr (JsonResponse 201 ItemAdded)"
    by (auto simp add: Customer_Cart_post_def AddToCartSerializer_is_valid_def Cart_objects_create_def Let_def
        split: option.splits)
  from assms(1) refused show ?thesis
    by (simp add: Customer_Cart_post_unique Customer_Cart_delete_unique OrdersView_post_unique)
qed

theorem cart_uniqueness_witness:
  "cart_unique shop_cart
   \<and> list_ex (same_line (uid customer1) 1) (cart shop_cart)
   \<and> Customer_Cart_post shop_cart customer1 \<lparr>data_menuitem = Some 1, data_quantity = Some 5\<rparr>
       = (shop_cart, Inr (JsonResponse 200 (CreateFailed IntegrityError)))
   \<and> cart_unique (fst (Customer_Cart_post shop_cart customer1
                          \<lparr>data_menuitem = Some 1, data_quantity = Some 5\<rparr>))"
proof -
  have a: "cart_unique shop_cart"
    by (simp add: cart_unique_def shop_cart_def line_A_def line_B_def)
  have b: "list_ex (same_line (uid customer1) 1) (cart shop_cart)"
    by (simp add: same_line_def shop_cart_def line_A_def customer1_def)
  have c: "data_menuitem \<lparr>data_menuitem = Some 1, data_quantity = Some 5\<rparr> = Some 1"
    by simp
  have e: "snd (Customer_Cart_post shop_cart customer1 \<lparr>data_menuitem = Some 1, data_quantity = Some 5\<rparr>)
             = Inr (JsonResponse 200 (CreateFailed IntegrityError))"
    by (simp add: Customer_Cart_post_def AddToCartSerializer_is_valid_def Cart_objects_create_def same_line_def shop_cart_def
        shop0_def line_A_def customer1_def)
  from cart_uniqueness [OF a b c, of customer1 "\<lparr>data_menuitem = Some 1, data_quantity = Some 5\<rparr>"]
  show ?thesis
    using a b e by (simp add: prod_eq_iff)
qed

section \<open>Clearing the cart\<close>

text \<open>
  C9. For every user and every store, \<^verbatim>\<open>ClearCart\<close> succeeds and leaves the user no
  cart line, the lines of other users kept; a second call succeeds as well and changes
  nothing.
\<close>

theorem clear_cart_idempotent:
  "\<exists>d1 d2. Customer_Cart_delete d u None = (d1, Inr (JsonResponse 201 AllItemsRemoved))
          \<and> user_cart d1 u = []
          \<and> other_carts d1 u = other_carts d u
          \<and> Customer_Cart_delete d1 u None = (d2, Inr (JsonResponse 201 AllItemsRemoved))
          \<and> user_cart d2 u = []
          \<and> d2 = d1"
  by (simp add: Customer_Cart_delete_def RemoveFromCartSerializer_is_valid_def user_cart_def other_carts_def)

theorem clear_cart_idempotent_witness:
  "\<exists>d1. Customer_Cart_delete shop_cart customer1 None =
            (d1, Inr (JsonResponse 201 AllItemsRemoved))
       \<and> cart d1 = []
       \<and> Customer_Cart_delete d1 customer1 None = (d1, Inr (JsonResponse 201 AllItemsRemoved))"
proof -
  have a: "other_carts shop_cart customer1 = []"
    by (simp add: other_carts_def shop_cart_def line_A_def line_B_def customer1_def)
  have b: "cart x = [] \<longleftrightarrow> user_cart x customer1 = [] \<and> other_carts x customer1 = []" for x
    by (auto simp add: user_cart_def other_carts_def filter_empty_conv)
  from clear_cart_idempotent [of shop_cart customer1] show ?thesis
    by (auto simp add: a b)
qed

section \<open>What the mutations of an order leave alone\<close>

text \<open>
  C10. A successful \<^verbatim>\<open>ToggleDeliveryStatus\<close> changes the status of the order and
  nothing else; a successful \<^verbatim>\<open>AssignDeliveryCrew\<close> changes the delivery crew of the
  order and nothing else. In both cases the owner, the total and the date of the order
  and the order items of the store are as before, and so are every other order and
  every other table.
\<close>

theorem order_mutation_frame:
  assumes "SingleOrderView_patch d pk = (d1, Inr r1)"
      and "SingleOrderView_put d' pk' entry = (d2, Inr r2)"
  shows "(\<exists>before after. orders d pk = Some before \<and> orders d1 pk = Some after
            \<and> order_status after = (\<not> order_status before)
            \<and> order_delivery_crew after = order_delivery_crew before
            \<and> order_user after = order_user before
            \<and> order_total after = order_total before
            \<and> order_date after = order_date before
            \<and> orderitems d1 = orderitems d
            \<and> d1 = d\<lparr>orders := (orders d)(pk \<mapsto> after)\<rparr>)
       \<and> (\<exists>before after. orders d' pk' = Some before \<and> orders d2 pk' = Some after
            \<and> (\<exists>crew_pk. entry = Some crew_pk \<and> users d' crew_pk \<noteq> None
                   \<and> order_delivery_crew after = Some crew_pk)
            \<and> order_status after = order_status before
            \<and> order_user after = order_user before
            \<and> order_total after = order_total before
            \<and> order_date after = order_date before
            \<and> orderitems d2 = orderitems d'
            \<and> d2 = d'\<lparr>orders := (orders d')(pk' \<mapsto> after)\<rparr>)"
  using assms
  by (auto simp add: SingleOrderView_patch_def SingleOrderView_put_def
      OrderPutSerializer_is_valid_def Let_def split: option.splits if_splits)

theorem order_mutation_frame_witness:
  "(\<exists>d1 r1. SingleOrderView_patch shop_order 1 = (d1, Inr r1)
       \<and> map_option order_status (orders d1 1) = Some True
       \<and> map_option order_total (orders d1 1) = Some 2200
       \<and> orderitems d1 = orderitems shop_order)
   \<and> (\<exists>d2 r2. SingleOrderView_put shop_order 1 (Some 4) = (d2, Inr r2)
       \<and> map_option order_delivery_crew (orders d2 1) = Some (Some 4)
       \<and> map_option order_total (orders d2 1) = Some 2200
       \<and> orderitems d2 = orderitems shop_order)"
proof -
  obtain d1 r1 where a: "SingleOrderView_patch shop_order 1 = (d1, Inr r1)"
    by (simp add: SingleOrderView_patch_def shop_order_def Let_def)
  obtain d2 r2 where b: "SingleOrderView_put shop_order 1 (Some 4) = (d2, Inr r2)"
    by (simp add: SingleOrderView_put_def OrderPutSerializer_is_valid_def shop_order_def shop0_def all_users_def)
  have o: "orders shop_order (Suc 0) = Some order1"
    by (simp add: shop_order_def)
  have f: "order_status order1 = False" "order_total order1 = 2200"
    by (simp_all add: order1_def)
  from order_mutation_frame [OF a b] show ?thesis
    using a b by (auto simp add: o f)
qed

end
